theory Spec2Isabelle
  imports Complex_Main "HOL-Library.Word" "HOL-Library.Multiset"
begin

section \<open>JavaScript numbers\<close>

text \<open>
  Every JavaScript number is an IEEE-754 binary64 value.  A finite double is modelled by the
  real number it denotes; an arithmetic operation is the exact operation followed by rounding
  to the nearest double, ties to the even mantissa.  The usage counters of \<open>server.js\<close> and
  the scale factor of the image route are computed with these operations.  Overflow to
  infinity and the reduced precision of subnormal results are outside the model: every
  quantity of the program stays far inside the normal range, and no division of the program
  has a zero divisor.
\<close>

text \<open>\<open>normalise n m e\<close> moves a positive \<open>m\<close> into \<open>[2^52, 2^53)\<close> by halving or
  doubling, at most \<open>n\<close> times, and keeps \<open>m * 2^e\<close> unchanged.\<close>

fun normalise :: "nat \<Rightarrow> real \<Rightarrow> int \<Rightarrow> real \<times> int" where
  "normalise 0 m e = (m, e)"
| "normalise (Suc n) m e =
     (if 2 ^ 53 \<le> m then normalise n (m / 2) (e + 1)
      else if m < 2 ^ 52 then normalise n (2 * m) (e - 1)
      else (m, e))"

definition round_half_even :: "real \<Rightarrow> int" where
  "round_half_even m =
     (let f = \<lfloor>m\<rfloor>; r = m - of_int f
      in if r < 1 / 2 then f else if 1 / 2 < r then f + 1 else if even f then f else f + 1)"

text \<open>Rounding to the nearest double.  The 2200 steps reach every exponent of the format.\<close>

definition fl :: "real \<Rightarrow> real" where
  "fl x =
     (if x = 0 then 0
      else (case normalise 2200 \<bar>x\<bar> 0 of
              (m, e) \<Rightarrow> sgn x * of_int (round_half_even m) * 2 powi e))"

definition js_add :: "real \<Rightarrow> real \<Rightarrow> real" where
  "js_add a b = fl (a + b)"

definition js_mul :: "real \<Rightarrow> real \<Rightarrow> real" where
  "js_mul a b = fl (a * b)"

definition js_div :: "real \<Rightarrow> real \<Rightarrow> real" where
  "js_div a b = fl (a / b)"

text \<open>\<open>Math.sqrt\<close> as Node computes it: the correctly rounded root.\<close>

definition Math_sqrt :: "real \<Rightarrow> real" where
  "Math_sqrt x = fl (sqrt x)"

definition Math_floor :: "real \<Rightarrow> int" where
  "Math_floor x = \<lfloor>x\<rfloor>"


section \<open>Buffers and base64\<close>

type_synonym bytes = "8 word list"

definition base64_alphabet :: string where
  "base64_alphabet = ''ABCDEFGHIJKLMNOPQRSTUVWXYZabcdefghijklmnopqrstuvwxyz0123456789+/''"

definition b64 :: "nat \<Rightarrow> char" where
  "b64 n = base64_alphabet ! (n mod 64)"

text \<open>\<open>Buffer.toString('base64')\<close>: three bytes give four characters, a rest of one or two
  bytes is padded with \<open>=\<close>.\<close>

fun base64 :: "bytes \<Rightarrow> string" where
  "base64 [] = []"
| "base64 [a] =
     [b64 (unat a div 4), b64 ((unat a mod 4) * 16), CHR ''='', CHR ''='']"
| "base64 [a, b] =
     [b64 (unat a div 4), b64 ((unat a mod 4) * 16 + unat b div 16),
      b64 ((unat b mod 16) * 4), CHR ''='']"
| "base64 (a # b # c # rest) =
     [b64 (unat a div 4), b64 ((unat a mod 4) * 16 + unat b div 16),
      b64 ((unat b mod 16) * 4 + unat c div 64), b64 (unat c mod 64)] @ base64 rest"


section \<open>Errors, responses and the process state\<close>

type_synonym path = string

text \<open>A JavaScript value as far as the program looks at one: the parsed body of an upstream
  response is any JSON value, and a message is a string.  An object or an array is kept as
  its JSON text.\<close>

datatype js_value = JNull | JBool bool | JNumber real | JString string | JObject string

text \<open>What \<open>||\<close> tests: \<open>null\<close>, \<open>false\<close>, \<open>0\<close> and the empty string are falsy, every object
  and array is truthy.\<close>

fun truthy :: "js_value \<Rightarrow> bool" where
  "truthy JNull = False"
| "truthy (JBool b) = b"
| "truthy (JNumber x) = (x \<noteq> 0)"
| "truthy (JString s) = (s \<noteq> [])"
| "truthy (JObject s) = True"

text \<open>A thrown value, as the \<open>catch\<close> blocks read it: \<open>error.response?.data\<close> (\<open>None\<close> when
  the error has no \<open>response\<close> or the response no \<open>data\<close>, that is \<open>undefined\<close>) and
  \<open>error.message\<close>.\<close>

record js_error =
  err_response_data :: "js_value option"
  err_message :: string

definition plain_error :: "string \<Rightarrow> js_error" where
  "plain_error m = \<lparr>err_response_data = None, err_message = m\<rparr>"

definition ReferenceError :: "string \<Rightarrow> js_error" where
  "ReferenceError name = plain_error (name @ '' is not defined'')"

definition TypeError :: "string \<Rightarrow> js_error" where
  "TypeError m = plain_error m"

definition ENOENT :: "path \<Rightarrow> js_error" where
  "ENOENT p = plain_error (''ENOENT: no such file or directory, '' @ p)"

text \<open>\<open>error.response?.data || error.message\<close>: an absent or falsy response body gives the
  message.\<close>

definition error_details :: "js_error \<Rightarrow> js_value" where
  "error_details e =
     (case err_response_data e of
        None \<Rightarrow> JString (err_message e)
      | Some d \<Rightarrow> if truthy d then d else JString (err_message e))"

text \<open>The JSON body of a response: each key the program ever sends, absent when \<open>None\<close>.\<close>

record 'j body =
  success :: "bool option"
  error :: "string option"
  details :: "js_value option"
  extractedData :: "'j option"
  rawContent :: "string option"
  message :: "string option"

record 'j response =
  status :: nat
  json :: "'j body"

definition empty_body :: "'j body" where
  "empty_body = \<lparr>success = None, error = None, details = None, extractedData = None,
     rawContent = None, message = None\<rparr>"

text \<open>\<open>req.file\<close> as multer fills it in.\<close>

record file_info =
  path :: path
  mimetype :: string

datatype part = TextPart string | ImageUrl string

datatype content = Text string | Parts "part list"

record api_request =
  url :: string
  model :: string
  messages :: "(string \<times> content) list"
  max_tokens :: "nat option"
  temperature :: nat
  authorization :: string

text \<open>\<open>openaiResponse.data\<close>: \<open>total_tokens\<close> is \<open>None\<close> when \<open>usage\<close> or
  \<open>usage.total_tokens\<close> is absent; \<open>content\<close> is \<open>None\<close> when
  \<open>choices[0].message\<close> does not exist, so that reading \<open>.content\<close> throws.\<close>

record completion =
  total_tokens :: "nat option"
  content :: "string option"

record sharp_call =
  input :: bytes
  resize_width :: int
  resize_height :: int
  jpeg_quality :: nat
  jpeg_progressive :: bool

datatype effect =
    FsUnlink path
  | SharpToBuffer sharp_call
  | AxiosPost api_request

text \<open>The libraries and services the handlers call.  \<open>JSON_parse\<close> returns the message of the
  \<open>SyntaxError\<close> on the left.\<close>

record 'j world =
  OPENAI_API_KEY :: "string option"
  pdfParse :: "bytes \<Rightarrow> js_error + string"
  sizeOf :: "bytes \<Rightarrow> js_error + nat \<times> nat"
  sharp :: "sharp_call \<Rightarrow> js_error + bytes"
  axios_post :: "api_request \<Rightarrow> js_error + completion"
  JSON_parse :: "string \<Rightarrow> string + 'j"

text \<open>The disk, the three usage counters of lines 18-20, the store of the rate limiter
  (per client address: the hits of the current window and the time at which it ends) and the
  chronological list of the calls made to the file system, to sharp and to the completion
  API.  Console output is not modelled.\<close>

record state =
  files :: "path \<rightharpoonup> bytes"
  totalRequests :: real
  totalTokensUsed :: real
  estimatedCost :: real
  hits :: "string \<rightharpoonup> nat \<times> nat"
  effects :: "effect list"

definition COST_PER_1K_TOKENS :: real where
  "COST_PER_1K_TOKENS = fl (1 / 100)"

definition emit :: "effect \<Rightarrow> state \<Rightarrow> state" where
  "emit x st = st\<lparr>effects := effects st @ [x]\<rparr>"

definition readFileSync :: "path \<Rightarrow> state \<Rightarrow> js_error + bytes" where
  "readFileSync p st = (case files st p of None \<Rightarrow> Inl (ENOENT p) | Some b \<Rightarrow> Inr b)"

definition existsSync :: "path \<Rightarrow> state \<Rightarrow> bool" where
  "existsSync p st = (files st p \<noteq> None)"

definition unlinkSync :: "path \<Rightarrow> state \<Rightarrow> (js_error + unit) \<times> state" where
  "unlinkSync p st =
     (case files st p of
        None \<Rightarrow> (Inl (ENOENT p), emit (FsUnlink p) st)
      | Some b \<Rightarrow> (Inr (), emit (FsUnlink p) (st\<lparr>files := (files st)(p := None)\<rparr>)))"

text \<open>Lines 117-123 and 274-280: the counters change only when the completion reports a
  truthy \<open>usage.total_tokens\<close>.\<close>

definition record_usage :: "completion \<Rightarrow> state \<Rightarrow> state" where
  "record_usage c st =
     (case total_tokens c of
        None \<Rightarrow> st
      | Some tokensUsed \<Rightarrow>
          if tokensUsed = 0 then st
          else st\<lparr>totalTokensUsed := js_add (totalTokensUsed st) (real tokensUsed),
                  estimatedCost := js_add (estimatedCost st)
                    (js_mul (js_div (real tokensUsed) 1000) COST_PER_1K_TOKENS)\<rparr>)"

definition bearer :: "'j world \<Rightarrow> string" where
  "bearer w = ''Bearer '' @ (case OPENAI_API_KEY w of None \<Rightarrow> ''undefined'' | Some k \<Rightarrow> k)"


section \<open>The route \<open>POST /upload-pdf\<close> (lines 66-164)\<close>

definition input_prompt :: string where
  \<open>input_prompt =
     ''Extract a structured list of items, their costs, tax, and total from this \<newline>'' @
     ''        structured data parsed from a Walmart bill pdf. \<newline>'' @
     ''        if items are discounted, make to sure include only the prices of items post discount. \<newline>'' @
     ''        display the parsed items in json format. \<newline>'' @
     ''        the list of parsed items with their prices should be in a tuple list,\<newline>'' @
     ''        each item in the list should have the "name" attribute and the "price" attribute,\<newline>'' @
     ''        the tax and final price should be different attributes and should be called "tax" and "total".\<newline>'' @
     ''        return pure JSON without code fences or additional text.''\<close>

definition completions_url :: string where
  "completions_url = ''https://api.openai.com/v1/chat/completions''"

definition pdf_request :: "'j world \<Rightarrow> string \<Rightarrow> api_request" where
  "pdf_request w extractedText =
     \<lparr>url = completions_url, model = ''gpt-4-turbo'',
      messages = [(''system'', Text input_prompt), (''user'', Text extractedText)],
      max_tokens = None, temperature = 0, authorization = bearer w\<rparr>"

definition ok_response :: "'j \<Rightarrow> 'j response" where
  "ok_response final_message =
     \<lparr>status = 200,
      json = empty_body\<lparr>success := Some True, extractedData := Some final_message\<rparr>\<rparr>"

definition no_choices :: js_error where
  "no_choices =
     TypeError (''Cannot read properties of undefined (reading '' @ [CHR 0x27, CHR ''0'', CHR 0x27] @ '')'')"

text \<open>Lines 129-143.  The handler of the inner \<open>try\<close> binds the caught value as \<open>error1\<close>, and
  its response object reads \<open>error.response?.data || error.message\<close>: no binding of
  \<open>error\<close> is in scope there (the parameter of the outer \<open>catch\<close> is visible in the outer
  handler only), so building the object throws a \<open>ReferenceError\<close> before \<open>.json\<close> is
  called, whatever \<open>error1\<close> was, and that error leaves the inner handler.\<close>

definition pdf_respond :: "'j world \<Rightarrow> completion \<Rightarrow> js_error + 'j response" where
  "pdf_respond w c =
     (case content c of
        None \<Rightarrow> Inl (ReferenceError ''error'')
      | Some text \<Rightarrow>
          (case JSON_parse w text of
             Inr final_message \<Rightarrow> Inr (ok_response final_message)
           | Inl error1 \<Rightarrow> Inl (ReferenceError ''error'')))"

text \<open>The body of the outer \<open>try\<close>, lines 74-145: the thrown error or the response sent,
  with the state reached.\<close>

definition pdf_try :: "'j world \<Rightarrow> file_info \<Rightarrow> state \<Rightarrow> (js_error + 'j response) \<times> state" where
  "pdf_try w file st =
     (let filePath = path file in
      case readFileSync filePath st of
        Inl e \<Rightarrow> (Inl e, st)
      | Inr fileBuffer \<Rightarrow>
          (case pdfParse w fileBuffer of
             Inl e \<Rightarrow> (Inl e, st)
           | Inr extractedText \<Rightarrow>
               (let request = pdf_request w extractedText;
                    st1 = emit (AxiosPost request) st
                in case axios_post w request of
                     Inl e \<Rightarrow> (Inl e, st1)
                   | Inr openaiResponse \<Rightarrow>
                       (let st2 = record_usage openaiResponse st1
                        in case unlinkSync filePath st2 of
                             (Inl e, st3) \<Rightarrow> (Inl e, st3)
                           | (Inr u, st3) \<Rightarrow> (pdf_respond w openaiResponse, st3)))))"

text \<open>Line 75 declares \<open>const filePath\<close> inside the block of the \<open>try\<close>; the module has no
  other binding of that name.  In the \<open>catch\<close> block the identifier is therefore unbound.\<close>

definition filePath_in_catch :: "path option" where
  "filePath_in_catch = None"

text \<open>Lines 150-156: \<open>fs.existsSync(filePath)\<close> with \<open>filePath\<close> unbound throws a
  \<open>ReferenceError\<close>, which the surrounding \<open>try\<close> catches and logs.\<close>

definition pdf_cleanup :: "state \<Rightarrow> state" where
  "pdf_cleanup st =
     (case filePath_in_catch of
        None \<Rightarrow> st
      | Some filePath \<Rightarrow> if existsSync filePath st then snd (unlinkSync filePath st) else st)"

definition pdf_catch :: "js_error \<Rightarrow> state \<Rightarrow> 'j response \<times> state" where
  "pdf_catch e st =
     (\<lparr>status = 500,
       json = empty_body\<lparr>success := Some False, error := Some ''OpenAI API failed'',
                details := Some (error_details e)\<rparr>\<rparr>,
      pdf_cleanup st)"

definition upload_pdf :: "'j world \<Rightarrow> file_info option \<Rightarrow> state \<Rightarrow> 'j response \<times> state" where
  "upload_pdf w req_file st =
     (case req_file of
        None \<Rightarrow> (\<lparr>status = 400, json = empty_body\<lparr>error := Some ''No file uploaded''\<rparr>\<rparr>, st)
      | Some file \<Rightarrow>
          (case pdf_try w file st of
             (Inr r, st') \<Rightarrow> (r, st')
           | (Inl e, st') \<Rightarrow> pdf_catch e st'))"


section \<open>The route \<open>POST /upload-image\<close> (lines 167-328)\<close>

definition MAX_SIZE_MB :: nat where
  "MAX_SIZE_MB = 15"

definition MAX_SIZE_BYTES :: nat where
  "MAX_SIZE_BYTES = MAX_SIZE_MB * 1024 * 1024"

text \<open>Line 197.\<close>

definition scaleFactor :: "nat \<Rightarrow> real" where
  "scaleFactor len = Math_sqrt (js_div (real MAX_SIZE_BYTES) (js_mul (real len) (3 / 2)))"

text \<open>Lines 198-207: the call \<open>sharp(imageBuffer).resize(newWidth, newHeight).jpeg({quality: 85,
  progressive: true}).toBuffer()\<close>.\<close>

definition resize_request :: "bytes \<Rightarrow> nat \<times> nat \<Rightarrow> sharp_call" where
  "resize_request imageBuffer dimensions =
     (let newWidth = Math_floor (js_mul (real (fst dimensions)) (scaleFactor (length imageBuffer)));
          newHeight = Math_floor (js_mul (real (snd dimensions)) (scaleFactor (length imageBuffer)))
      in \<lparr>input = imageBuffer, resize_width = newWidth, resize_height = newHeight,
          jpeg_quality = 85, jpeg_progressive = True\<rparr>)"

text \<open>The body of the \<open>try\<close> of lines 190-210.\<close>

definition resize_image :: "'j world \<Rightarrow> bytes \<Rightarrow> state \<Rightarrow> (js_error + bytes) \<times> state" where
  "resize_image w imageBuffer st =
     (case sizeOf w imageBuffer of
        Inl e \<Rightarrow> (Inl e, st)
      | Inr dimensions \<Rightarrow>
          (let call = resize_request imageBuffer dimensions
           in (sharp w call, emit (SharpToBuffer call) st)))"

definition image_prompt :: string where
  \<open>image_prompt =
     ''Extract a structured list of items, their costs, tax, and total from this bill image.\<newline>'' @
     ''                        Return the data in JSON format with the following structure:\<newline>'' @
     ''                        {\<newline>'' @
     ''                          "items": [{"name": "item name", "price": price_as_number}, ...],\<newline>'' @
     ''                          "tax": tax_amount_as_number,\<newline>'' @
     ''                          "total": total_amount_as_number\<newline>'' @
     ''                        }\<newline>'' @
     ''                        Return pure JSON without code fences or additional text.''\<close>

definition image_url :: "string \<Rightarrow> string \<Rightarrow> string" where
  "image_url imageMimeType base64Image = ''data:image/'' @ imageMimeType @ '';base64,'' @ base64Image"

definition image_request :: "'j world \<Rightarrow> string \<Rightarrow> string \<Rightarrow> api_request" where
  "image_request w imageMimeType base64Image =
     \<lparr>url = completions_url, model = ''gpt-4-turbo'',
      messages =
        [(''system'', Text image_prompt),
         (''user'', Parts [TextPart ''Extract the bill information from this image.'',
                          ImageUrl (image_url imageMimeType base64Image)])],
      max_tokens = Some 1000, temperature = 0, authorization = bearer w\<rparr>"

text \<open>\<open>req.tempResizedPath\<close>: no statement of the program assigns it.\<close>

definition tempResizedPath :: "path option" where
  "tempResizedPath = None"

text \<open>Lines 295-310.  When \<open>choices[0].message\<close> is missing, the \<open>TypeError\<close> of line 296 is
  caught, and line 308 throws it again out of the handler.\<close>

definition image_respond :: "'j world \<Rightarrow> completion \<Rightarrow> js_error + 'j response" where
  "image_respond w c =
     (case content c of
        None \<Rightarrow> Inl no_choices
      | Some text \<Rightarrow>
          (case JSON_parse w text of
             Inr final_message \<Rightarrow> Inr (ok_response final_message)
           | Inl error1_message \<Rightarrow>
               Inr \<lparr>status = 500,
                    json = empty_body\<lparr>success := Some False, error := Some ''Parsing failed'',
                             details := Some (JString error1_message), rawContent := Some text\<rparr>\<rparr>))"

text \<open>Lines 225-310; \<open>resized\<close> is the test \<open>processedImageBuffer !== imageBuffer\<close>, which
  holds exactly after the resize branch.  An empty \<open>mimetype\<close> is falsy.\<close>

definition imageMimeType :: "file_info \<Rightarrow> bool \<Rightarrow> string" where
  "imageMimeType file resized =
     (if mimetype file \<noteq> [] then mimetype file
      else if resized then ''image/jpeg'' else ''image/png'')"

definition image_send ::
  "'j world \<Rightarrow> file_info \<Rightarrow> bytes \<Rightarrow> bool \<Rightarrow> state \<Rightarrow> (js_error + 'j response) \<times> state" where
  "image_send w file processedImageBuffer resized st =
     (let base64Image = base64 processedImageBuffer;
          request = image_request w (imageMimeType file resized) base64Image;
          st1 = emit (AxiosPost request) st
      in case axios_post w request of
           Inl e \<Rightarrow> (Inl e, st1)
         | Inr openaiResponse \<Rightarrow>
             (let st2 = record_usage openaiResponse st1
              in case unlinkSync (path file) st2 of
                   (Inl e, st3) \<Rightarrow> (Inl e, st3)
                 | (Inr u, st3) \<Rightarrow>
                     (case (if resized then tempResizedPath else None) of
                        None \<Rightarrow> (image_respond w openaiResponse, st3)
                      | Some p \<Rightarrow> (image_respond w openaiResponse, snd (unlinkSync p st3)))))"

text \<open>The body of the outer \<open>try\<close>, lines 174-310.  A failure of the resize step answers 400
  from inside the \<open>try\<close> (lines 211-218) and returns.\<close>

definition image_try :: "'j world \<Rightarrow> file_info \<Rightarrow> state \<Rightarrow> (js_error + 'j response) \<times> state" where
  "image_try w file st =
     (case readFileSync (path file) st of
        Inl e \<Rightarrow> (Inl e, st)
      | Inr imageBuffer \<Rightarrow>
          if MAX_SIZE_BYTES < length imageBuffer then
            (case resize_image w imageBuffer st of
               (Inl resizeError, st1) \<Rightarrow>
                 (Inr \<lparr>status = 400,
                       json = empty_body\<lparr>success := Some False,
                                error := Some ''Image processing failed'',
                                details :=
                                  Some (JString ''Unable to resize image. Try uploading a smaller image.'')\<rparr>\<rparr>,
                  st1)
             | (Inr processedImageBuffer, st1) \<Rightarrow> image_send w file processedImageBuffer True st1)
          else image_send w file imageBuffer False st)"

text \<open>Lines 315-320: both deletions sit in one \<open>try\<close>; an error of the first skips the
  second and is logged.\<close>

definition unlink_temp :: "state \<Rightarrow> state" where
  "unlink_temp st = (case tempResizedPath of None \<Rightarrow> st | Some p \<Rightarrow> snd (unlinkSync p st))"

definition image_cleanup :: "file_info \<Rightarrow> state \<Rightarrow> state" where
  "image_cleanup file st =
     (if path file = [] then unlink_temp st
      else (case unlinkSync (path file) st of
              (Inl cleanupError, st1) \<Rightarrow> st1
            | (Inr u, st1) \<Rightarrow> unlink_temp st1))"

definition image_catch :: "file_info \<Rightarrow> js_error \<Rightarrow> state \<Rightarrow> 'j response \<times> state" where
  "image_catch file e st =
     (\<lparr>status = 500,
       json = empty_body\<lparr>success := Some False, error := Some ''Image processing failed'',
                details := Some (error_details e)\<rparr>\<rparr>,
      image_cleanup file st)"

definition upload_image :: "'j world \<Rightarrow> file_info option \<Rightarrow> state \<Rightarrow> 'j response \<times> state" where
  "upload_image w req_file st =
     (case req_file of
        None \<Rightarrow> (\<lparr>status = 400, json = empty_body\<lparr>error := Some ''No image uploaded''\<rparr>\<rparr>, st)
      | Some file \<Rightarrow>
          (case image_try w file st of
             (Inr r, st') \<Rightarrow> (r, st')
           | (Inl e, st') \<Rightarrow> image_catch file e st'))"


section \<open>Middleware and the application (lines 23-63 and 355-372)\<close>

datatype route = UploadPdf | UploadImage

text \<open>An incoming request: the client address, the arrival time in milliseconds, the route,
  the file part of the multipart body (field name, declared mime type, bytes) when there is
  one, and the name multer draws for the stored file.\<close>

record http_request =
  ip :: string
  time :: nat
  route :: route
  file_part :: "(string \<times> string \<times> bytes) option"
  tmp_name :: string

definition windowMs :: nat where
  "windowMs = 15 * 60 * 1000"

definition max_hits :: nat where
  "max_hits = 5"

definition limit_message :: "'j body" where
  "limit_message = empty_body\<lparr>success := Some False,
     error := Some ''Too many requests from this IP, please try again after 15 minutes''\<rparr>"

text \<open>Modelled from the spec: the function \<open>rateLimit\<close> of the package express-rate-limit is
  not part of the repository; lines 28-37 only configure it.  Following the spec it is a
  window-based limiter per client address, shared by both upload routes: a client's window
  opens with its first request and lasts \<open>windowMs\<close>; every request counts; a request that
  brings the count of its window above \<open>max\<close> is answered \<open>429\<close> with the configured
  message and goes no further down the chain.\<close>

definition apiLimiter :: "http_request \<Rightarrow> state \<Rightarrow> 'j response option \<times> state" where
  "apiLimiter req st =
     (let (n, resetTime) =
            (case hits st (ip req) of
               None \<Rightarrow> (0, time req + windowMs)
             | Some (n, resetTime) \<Rightarrow>
                 if time req < resetTime then (n, resetTime) else (0, time req + windowMs));
          st' = st\<lparr>hits := (hits st)(ip req \<mapsto> (Suc n, resetTime))\<rparr>
      in if max_hits < Suc n then (Some \<lparr>status = 429, json = limit_message\<rparr>, st')
         else (None, st'))"

text \<open>Lines 43-50; the path of either upload route contains \<open>/upload-\<close>.\<close>

definition track_request :: "state \<Rightarrow> state" where
  "track_request st = st\<lparr>totalRequests := js_add (totalRequests st) 1\<rparr>"

definition fileSize :: nat where
  "fileSize = 20 * 1024 * 1024"

definition field_name :: "route \<Rightarrow> string" where
  "field_name r = (case r of UploadPdf \<Rightarrow> ''pdf'' | UploadImage \<Rightarrow> ''image'')"

text \<open>Modelled from the spec: the package multer is not part of the repository; lines 58-63
  configure it with the destination \<open>uploads/\<close> and the limit \<open>fileSize\<close>, and lines 66 and
  167 with the field name.  Following the spec's Upload Intake it accepts one file per request
  under the named field and stores it (\<open>req.file\<close> is set); a request without a file reaches
  the handler with \<open>req.file\<close> unset; an upload above the maximum size is rejected before
  processing.  A rejection stores nothing, leaves \<open>req.file\<close> unset and raises an error in
  the middleware chain, which the program answers in its error handler (lines 355-372).
  A file under another field is rejected in the same way.\<close>

definition upload_single ::
  "string \<Rightarrow> http_request \<Rightarrow> state \<Rightarrow> (js_error + file_info option) \<times> state" where
  "upload_single field req st =
     (case file_part req of
        None \<Rightarrow> (Inr None, st)
      | Some (name, mime, data) \<Rightarrow>
          if name \<noteq> field then (Inl (plain_error ''Unexpected field''), st)
          else if fileSize < length data then (Inl (plain_error ''File too large''), st)
          else (Inr (Some \<lparr>path = ''uploads/'' @ tmp_name req, mimetype = mime\<rparr>),
                st\<lparr>files := (files st)(''uploads/'' @ tmp_name req \<mapsto> data)\<rparr>))"

text \<open>Lines 355-372.\<close>

definition error_middleware :: "js_error \<Rightarrow> file_info option \<Rightarrow> state \<Rightarrow> 'j response \<times> state" where
  "error_middleware err req_file st =
     (\<lparr>status = 500,
       json = empty_body\<lparr>success := Some False, error := Some ''Server error'',
                message := Some (err_message err)\<rparr>\<rparr>,
      case req_file of
        None \<Rightarrow> st
      | Some file \<Rightarrow> if path file = [] then st else snd (unlinkSync (path file) st))"

text \<open>Lines 66 and 167: multer, then the handler of the route; an error of multer goes to
  the error handler of line 355.\<close>

definition upload_route :: "'j world \<Rightarrow> http_request \<Rightarrow> state \<Rightarrow> 'j response \<times> state" where
  "upload_route w req st =
     (case upload_single (field_name (route req)) req st of
        (Inl err, st1) \<Rightarrow> error_middleware err None st1
      | (Inr req_file, st1) \<Rightarrow>
          (case route req of
             UploadPdf \<Rightarrow> upload_pdf w req_file st1
           | UploadImage \<Rightarrow> upload_image w req_file st1))"

text \<open>One request through the chain in the order of registration: limiter (line 40), request
  counter (line 43), route.\<close>

definition app_post :: "'j world \<Rightarrow> http_request \<Rightarrow> state \<Rightarrow> 'j response \<times> state" where
  "app_post w req st =
     (case apiLimiter req st of
        (Some limited, st1) \<Rightarrow> (limited, st1)
      | (None, st1) \<Rightarrow> upload_route w req (track_request st1))"

text \<open>A sequence of requests, served one after the other.\<close>

fun serve :: "'j world \<Rightarrow> http_request list \<Rightarrow> state \<Rightarrow> 'j response list \<times> state" where
  "serve w [] st = ([], st)"
| "serve w (req # reqs) st =
     (case app_post w req st of
        (r, st1) \<Rightarrow> (case serve w reqs st1 of (rs, st2) \<Rightarrow> (r # rs, st2)))"


section \<open>Observations on a run\<close>

definition new_effects :: "state \<Rightarrow> state \<Rightarrow> effect list" where
  "new_effects st st' = drop (length (effects st)) (effects st')"

fun unlinks :: "effect list \<Rightarrow> path list" where
  "unlinks [] = []"
| "unlinks (FsUnlink p # es) = p # unlinks es"
| "unlinks (e # es) = unlinks es"

fun sharp_calls :: "effect list \<Rightarrow> sharp_call list" where
  "sharp_calls [] = []"
| "sharp_calls (SharpToBuffer c # es) = c # sharp_calls es"
| "sharp_calls (e # es) = sharp_calls es"

fun posts :: "effect list \<Rightarrow> api_request list" where
  "posts [] = []"
| "posts (AxiosPost r # es) = r # posts es"
| "posts (e # es) = posts es"

fun part_urls :: "part list \<Rightarrow> string list" where
  "part_urls [] = []"
| "part_urls (ImageUrl u # ps) = u # part_urls ps"
| "part_urls (p # ps) = part_urls ps"

fun image_urls :: "(string \<times> content) list \<Rightarrow> string list" where
  "image_urls [] = []"
| "image_urls ((role, Parts ps) # ms) = part_urls ps @ image_urls ms"
| "image_urls (m # ms) = image_urls ms"







text \<open>The two counters of the usage update.\<close>

definition counters :: "state \<Rightarrow> real \<times> real" where
  "counters st = (totalTokensUsed st, estimatedCost st)"

text \<open>The client has no window open at time \<open>t0\<close>: the limiter has no record of it, or
  the window of its record has ended.\<close>

definition no_open_window :: "state \<Rightarrow> string \<Rightarrow> nat \<Rightarrow> bool" where
  "no_open_window st c t0 =
     (case hits st c of None \<Rightarrow> True | Some (n, resetTime) \<Rightarrow> resetTime \<le> t0)"


section \<open>Sample inputs for the closed examples\<close>

text \<open>A stand-in for \<open>JSON.parse\<close> that knows one receipt; the parsed value is represented
  by its text.\<close>

definition sample_parse :: "string \<Rightarrow> string + string" where
  \<open>sample_parse s =
     (if s = ''{"items":[{"name":"Milk","price":3.99}],"tax":0.5,"total":4.49}'' then Inr s
      else Inl (''Unexpected token in JSON: '' @ s))\<close>

definition sample_completion :: completion where
  \<open>sample_completion = \<lparr>total_tokens = Some 1234,
     content = Some ''{"items":[{"name":"Milk","price":3.99}],"tax":0.5,"total":4.49}''\<rparr>\<close>

definition sample_world :: "string world" where
  "sample_world = \<lparr>OPENAI_API_KEY = Some ''sk-test'',
     pdfParse = (\<lambda>b. Inr ''Milk $3.99, Tax $0.50, Total $4.49''),
     sizeOf = (\<lambda>b. Inr (4000, 3000)),
     sharp = (\<lambda>c. Inr [0xFF, 0xD8, 0xFF]),
     axios_post = (\<lambda>r. Inr sample_completion),
     JSON_parse = sample_parse\<rparr>"

definition not_json_world :: "string world" where
  "not_json_world = sample_world\<lparr>axios_post :=
     (\<lambda>r. Inr \<lparr>total_tokens = Some 57, content = Some ''not json''\<rparr>)\<rparr>"

definition upstream_error :: js_error where
  \<open>upstream_error =
     \<lparr>err_response_data = Some (JObject ''{"error":{"message":"Incorrect API key provided"}}''),
      err_message = ''Request failed with status code 401''\<rparr>\<close>

definition failing_world :: "string world" where
  "failing_world =
     sample_world\<lparr>OPENAI_API_KEY := None, axios_post := (\<lambda>r. Inl upstream_error)\<rparr>"

text \<open>A completion service whose error response has the body \<open>null\<close>.\<close>

definition null_body_world :: "string world" where
  "null_body_world =
     sample_world\<lparr>axios_post :=
       (\<lambda>r. Inl \<lparr>err_response_data = Some JNull,
                     err_message = ''Request failed with status code 502''\<rparr>)\<rparr>"

definition sample_pdf :: file_info where
  "sample_pdf = \<lparr>path = ''uploads/3f2a'', mimetype = ''application/pdf''\<rparr>"

definition sample_png :: file_info where
  "sample_png = \<lparr>path = ''uploads/9c1b'', mimetype = ''image/png''\<rparr>"

definition sample_state :: state where
  "sample_state =
     \<lparr>files = [''uploads/3f2a'' \<mapsto> [0x25, 0x50, 0x44, 0x46],
               ''uploads/9c1b'' \<mapsto> [0x89, 0x50, 0x4E, 0x47]],
      totalRequests = 1, totalTokensUsed = 0, estimatedCost = 0, hits = Map.empty,
      effects = []\<rparr>"


definition big_image :: bytes where
  "big_image = replicate 16384000 0"

definition unreadable_world :: "string world" where
  "unreadable_world =
     sample_world\<lparr>sizeOf := (\<lambda>b. Inl (plain_error ''unsupported file type: undefined''))\<rparr>"

definition big_state :: state where
  "big_state = sample_state\<lparr>files := [''uploads/9c1b'' \<mapsto> big_image]\<rparr>"





text \<open>An image upload of 20 MB and one byte.\<close>

definition oversized_request :: http_request where
  "oversized_request = \<lparr>ip = ''203.0.113.7'', time = 1000, route = UploadImage,
     file_part = Some (''image'', ''image/jpeg'', replicate 20971521 0), tmp_name = ''77aa''\<rparr>"

text \<open>Six requests of one client within five minutes, none of them with a file.\<close>

definition burst :: "http_request list" where
  "burst = map (\<lambda>t. \<lparr>ip = ''203.0.113.7'', time = t, route = UploadPdf, file_part = None,
                        tmp_name = ''''\<rparr>)
     [0, 60000, 120000, 180000, 240000, 300000]"


section \<open>Basic facts about the state operations\<close>

lemma emit_simps [simp]:
  "effects (emit x st) = effects st @ [x]"
  "files (emit x st) = files st"
  "hits (emit x st) = hits st"
  "totalTokensUsed (emit x st) = totalTokensUsed st"
  "estimatedCost (emit x st) = estimatedCost st"
  "totalRequests (emit x st) = totalRequests st"
  by (simp_all add: emit_def)

lemma record_usage_simps [simp]:
  "effects (record_usage c st) = effects st"
  "files (record_usage c st) = files st"
  "hits (record_usage c st) = hits st"
  "totalRequests (record_usage c st) = totalRequests st"
  by (simp_all add: record_usage_def split: option.splits)

lemma unlinkSync_present:
  "files st p = Some b \<Longrightarrow>
     unlinkSync p st = (Inr (), emit (FsUnlink p) (st\<lparr>files := (files st)(p := None)\<rparr>))"
  by (simp add: unlinkSync_def)

lemma unlinkSync_absent:
  "files st p = None \<Longrightarrow> unlinkSync p st = (Inl (ENOENT p), emit (FsUnlink p) st)"
  by (simp add: unlinkSync_def)


lemma length_big_image: "length big_image = 16384000"
  by (simp add: big_image_def)

lemmas eval_defs = upload_pdf_def pdf_try_def readFileSync_def sample_state_def sample_pdf_def
  sample_png_def failing_world_def not_json_world_def sample_world_def Let_def pdf_catch_def
  upload_image_def image_try_def MAX_SIZE_BYTES_def MAX_SIZE_MB_def image_send_def
  unlinkSync_def tempResizedPath_def image_respond_def pdf_respond_def sample_parse_def
  sample_completion_def image_catch_def image_cleanup_def unlink_temp_def empty_body_def
  error_details_def upstream_error_def imageMimeType_def

lemma image_send_present:
  assumes "files st (path file) = Some b"
  shows "image_send w file processed resized st =
    (let request = image_request w (imageMimeType file resized) (base64 processed);
         st1 = emit (AxiosPost request) st
     in case axios_post w request of
          Inl e \<Rightarrow> (Inl e, st1)
        | Inr c \<Rightarrow> (image_respond w c,
             emit (FsUnlink (path file)) ((record_usage c st1)\<lparr>files := (files st)(path file := None)\<rparr>)))"
  using assms
  by (simp add: image_send_def Let_def unlinkSync_present tempResizedPath_def split: sum.splits)

lemma pdf_try_present:
  assumes "files st (path file) = Some b"
  shows "pdf_try w file st =
    (case pdfParse w b of
       Inl e \<Rightarrow> (Inl e, st)
     | Inr extractedText \<Rightarrow>
         (let st1 = emit (AxiosPost (pdf_request w extractedText)) st
          in case axios_post w (pdf_request w extractedText) of
               Inl e \<Rightarrow> (Inl e, st1)
             | Inr c \<Rightarrow> (pdf_respond w c,
                 emit (FsUnlink (path file)) ((record_usage c st1)\<lparr>files := (files st)(path file := None)\<rparr>))))"
  using assms
  by (simp add: pdf_try_def readFileSync_def Let_def unlinkSync_present split: sum.splits)

lemma pdf_cleanup_id [simp]: "pdf_cleanup st = st"
  by (simp add: pdf_cleanup_def filePath_in_catch_def)

lemma image_cleanup_effects:
  "effects (image_cleanup file st) = effects st @ (if path file = [] then [] else [FsUnlink (path file)])"
  by (cases "files st (path file)")
     (simp_all add: image_cleanup_def unlink_temp_def tempResizedPath_def unlinkSync_present unlinkSync_absent)

lemma image_cleanup_files:
  "files (image_cleanup file st) = (if path file = [] then files st else (files st)(path file := None))"
  by (cases "files st (path file)")
     (auto simp add: image_cleanup_def unlink_temp_def tempResizedPath_def unlinkSync_present unlinkSync_absent)

lemma image_try_normalised:
  assumes "files st (path file) = Some b"
    "if MAX_SIZE_BYTES < length b
     then resized \<and> sizeOf w b = Inr d \<and> sharp w (resize_request b d) = Inr processed
     else \<not> resized \<and> processed = b"
  shows "\<exists>st1. image_try w file st = image_send w file processed resized st1 \<and> files st1 = files st"
  using assms
  by (auto simp add: image_try_def readFileSync_def resize_image_def Let_def split: if_splits)

lemma posts_append [simp]: "posts (xs @ ys) = posts xs @ posts ys"
  by (induction xs rule: posts.induct) simp_all

lemma sharp_calls_append [simp]: "sharp_calls (xs @ ys) = sharp_calls xs @ sharp_calls ys"
  by (induction xs rule: sharp_calls.induct) simp_all

lemma unlinks_append [simp]: "unlinks (xs @ ys) = unlinks xs @ unlinks ys"
  by (induction xs rule: unlinks.induct) simp_all

lemma image_send_posts:
  assumes "files st1 (path file) = Some b"
  shows "\<exists>es. effects (snd (case image_send w file processed resized st1 of
                   (Inr r, st') \<Rightarrow> (r, st') | (Inl e, st') \<Rightarrow> image_catch file e st')) = effects st1 @ es \<and>
              posts es = [image_request w (imageMimeType file resized) (base64 processed)] \<and> sharp_calls es = []"
  using assms
  by (simp add: image_send_present Let_def image_catch_def image_cleanup_effects split: sum.splits)

lemma upload_image_posts:
  "\<exists>es. effects (snd (upload_image w (Some file) st)) = effects st @ es \<and>
     (posts es = [] \<or> (\<exists>resized buf. posts es = [image_request w (imageMimeType file resized) (base64 buf)]))"
proof (cases "files st (path file)")
  case None
  then show ?thesis
    by (simp add: upload_image_def image_try_def readFileSync_def image_catch_def image_cleanup_effects)
next
  case (Some b)
  show ?thesis
  proof (cases "MAX_SIZE_BYTES < length b")
    case False
    with Some image_send_posts [OF Some, of w b False] show ?thesis
      by (auto simp add: upload_image_def image_try_def readFileSync_def)
  next
    case True
    show ?thesis
    proof (cases "sizeOf w b")
      case (Inl e)
      with Some True show ?thesis
        by (simp add: upload_image_def image_try_def readFileSync_def resize_image_def)
    next
      case (Inr d)
      show ?thesis
      proof (cases "sharp w (resize_request b d)")
        case (Inl e)
        with Some True Inr show ?thesis
          by (simp add: upload_image_def image_try_def readFileSync_def resize_image_def Let_def)
      next
        case (Inr p)
        have f: "files (emit (SharpToBuffer (resize_request b d)) st) (path file) = Some b"
          using Some by simp
        from image_send_posts [OF f, of w p True] obtain es where
          "effects (snd (case image_send w file p True (emit (SharpToBuffer (resize_request b d)) st) of
                   (Inr r, st') \<Rightarrow> (r, st') | (Inl e, st') \<Rightarrow> image_catch file e st'))
             = effects (emit (SharpToBuffer (resize_request b d)) st) @ es"
          "posts es = [image_request w (imageMimeType file True) (base64 p)]" by blast
        with Some True \<open>sizeOf w b = Inr d\<close> Inr show ?thesis
          by (auto simp add: upload_image_def image_try_def readFileSync_def resize_image_def Let_def
              intro!: exI [of _ "SharpToBuffer (resize_request b d) # es"])
      qed
    qed
  qed
qed

lemma new_effects_append: "effects st' = effects st @ es \<Longrightarrow> new_effects st st' = es"
  by (simp add: new_effects_def)


section \<open>Rounding to a double\<close>






lemma round_half_even_near:
  assumes "\<bar>x - of_int m\<bar> < 1 / 2"
  shows "round_half_even x = m"
proof (cases "of_int m \<le> x")
  case True
  with assms have "\<lfloor>x\<rfloor> = m" by (intro floor_unique) linarith+
  with assms True show ?thesis by (simp add: round_half_even_def Let_def)
next
  case False
  with assms have "\<lfloor>x\<rfloor> = m - 1" by (intro floor_unique) (simp, linarith+)
  with assms False show ?thesis by (auto simp add: round_half_even_def Let_def)
qed




lemma round_half_even_of_int [simp]: "round_half_even (of_int z) = z"
  by (rule round_half_even_near) simp









section \<open>Requests without a file\<close>

text \<open>
  Claim C9.  When \<open>req.file\<close> is unset, either handler answers status 400 with its
  "no file" error (\<open>No file uploaded\<close> on the PDF route, \<open>No image uploaded\<close> on the image
  route) and returns at once: it calls \<open>fs.unlinkSync\<close> not even once and leaves the disk
  as it was.
\<close>

theorem no_file_rejected:
  "status (fst (upload_pdf w None st)) = 400 \<and>
   error (json (fst (upload_pdf w None st))) = Some ''No file uploaded'' \<and>
   unlinks (new_effects st (snd (upload_pdf w None st))) = [] \<and>
   files (snd (upload_pdf w None st)) = files st \<and>
   status (fst (upload_image w None st)) = 400 \<and>
   error (json (fst (upload_image w None st))) = Some ''No image uploaded'' \<and>
   unlinks (new_effects st (snd (upload_image w None st))) = [] \<and>
   files (snd (upload_image w None st)) = files st"
  by (simp add: upload_pdf_def upload_image_def empty_body_def new_effects_def)

theorem no_file_rejected_witness:
  "status (fst (upload_pdf sample_world None sample_state)) = 400 \<and>
   error (json (fst (upload_pdf sample_world None sample_state))) = Some ''No file uploaded'' \<and>
   unlinks (new_effects sample_state (snd (upload_pdf sample_world None sample_state))) = [] \<and>
   files (snd (upload_pdf sample_world None sample_state)) = files sample_state \<and>
   status (fst (upload_image sample_world None sample_state)) = 400 \<and>
   error (json (fst (upload_image sample_world None sample_state))) = Some ''No image uploaded'' \<and>
   unlinks (new_effects sample_state (snd (upload_image sample_world None sample_state))) = [] \<and>
   files (snd (upload_image sample_world None sample_state)) = files sample_state"
  by (rule no_file_rejected)


section \<open>Base64 loses nothing\<close>

lemma b64_inj: "m < 64 \<Longrightarrow> n < 64 \<Longrightarrow> b64 m = b64 n \<longleftrightarrow> m = n"
proof -
  have d: "distinct base64_alphabet" by (simp add: base64_alphabet_def)
  have l: "length base64_alphabet = 64" by (simp add: base64_alphabet_def)
  show "m < 64 \<Longrightarrow> n < 64 \<Longrightarrow> b64 m = b64 n \<longleftrightarrow> m = n"
    using d l by (simp add: b64_def nth_eq_iff_index_eq)
qed

lemma b64_not_pad [simp]: "b64 n \<noteq> CHR ''=''" "CHR ''='' \<noteq> b64 n"
proof -
  have "b64 n \<in> set base64_alphabet"
    unfolding b64_def by (rule nth_mem) (simp add: base64_alphabet_def)
  moreover have "CHR ''='' \<notin> set base64_alphabet" by (simp add: base64_alphabet_def)
  ultimately show "b64 n \<noteq> CHR ''=''" "CHR ''='' \<noteq> b64 n" by auto
qed

lemma byte_bound: "unat (a :: 8 word) < 256"
  using unsigned_less [of a] by simp

lemma split_digits:
  fixes x y x' y' k :: nat
  assumes "y < k" "y' < k" "x * k + y = x' * k + y'"
  shows "x = x' \<and> y = y'"
proof -
  have "(x * k + y) div k = x" "(x' * k + y') div k = x'" using assms(1,2) by simp_all
  with assms(3) have "x = x'" by simp
  with assms(3) show ?thesis by simp
qed

lemma sextets_inj:
  fixes a b c a' b' c' :: nat
  assumes "b < 256" "c < 256" "b' < 256" "c' < 256"
    and 1: "a div 4 = a' div 4"
    and 2: "(a mod 4) * 16 + b div 16 = (a' mod 4) * 16 + b' div 16"
    and 3: "(b mod 16) * 4 + c div 64 = (b' mod 16) * 4 + c' div 64"
    and 4: "c mod 64 = c' mod 64"
  shows "a = a' \<and> b = b' \<and> c = c'"
proof -
  have "b div 16 < 16" "b' div 16 < 16" "c div 64 < 4" "c' div 64 < 4" using assms(1-4) by simp_all
  with split_digits [OF _ _ 2] split_digits [OF _ _ 3] have
    e: "a mod 4 = a' mod 4" "b div 16 = b' div 16" "b mod 16 = b' mod 16" "c div 64 = c' div 64"
    by simp_all
  have "a = a'" using 1 e(1) by (metis div_mult_mod_eq)
  moreover have "b = b'" using e(2,3) by (metis div_mult_mod_eq)
  moreover have "c = c'" using e(4) 4 by (metis div_mult_mod_eq)
  ultimately show ?thesis by simp
qed

lemma sextet_bounds:
  fixes a b c :: "8 word"
  shows "unat a div 4 < 64" "(unat a mod 4) * 16 + unat b div 16 < 64"
    "(unat b mod 16) * 4 + unat c div 64 < 64" "unat c mod 64 < 64" "(unat a mod 4) * 16 < 64"
    "(unat b mod 16) * 4 < 64"
proof -
  have "unat a < 256" "unat b < 256" "unat c < 256" by (rule byte_bound)+
  then have "unat a div 4 < 64" "unat a mod 4 < 4" "unat b div 16 < 16" "unat b mod 16 < 16"
    "unat c div 64 < 4" by simp_all
  then show "unat a div 4 < 64" "(unat a mod 4) * 16 + unat b div 16 < 64"
    "(unat b mod 16) * 4 + unat c div 64 < 64" "unat c mod 64 < 64" "(unat a mod 4) * 16 < 64"
    "(unat b mod 16) * 4 < 64" by simp_all
qed

lemma group3:
  fixes a b c a' b' c' :: "8 word"
  assumes "b64 (unat a div 4) = b64 (unat a' div 4)"
    "b64 ((unat a mod 4) * 16 + unat b div 16) = b64 ((unat a' mod 4) * 16 + unat b' div 16)"
    "b64 ((unat b mod 16) * 4 + unat c div 64) = b64 ((unat b' mod 16) * 4 + unat c' div 64)"
    "b64 (unat c mod 64) = b64 (unat c' mod 64)"
  shows "a = a' \<and> b = b' \<and> c = c'"
proof -
  from assms have "unat a div 4 = unat a' div 4"
    "(unat a mod 4) * 16 + unat b div 16 = (unat a' mod 4) * 16 + unat b' div 16"
    "(unat b mod 16) * 4 + unat c div 64 = (unat b' mod 16) * 4 + unat c' div 64"
    "unat c mod 64 = unat c' mod 64"
    by (simp_all add: b64_inj sextet_bounds)
  with sextets_inj [of "unat b" "unat c" "unat b'" "unat c'" "unat a" "unat a'"]
  have "unat a = unat a' \<and> unat b = unat b' \<and> unat c = unat c'"
    by (simp add: byte_bound)
  then show ?thesis by (simp add: word_unat_eq_iff)
qed

lemma base64_inj: "base64 xs = base64 ys \<Longrightarrow> xs = ys"
proof (induction xs arbitrary: ys rule: base64.induct)
  case 1
  then show ?case by (cases ys rule: base64.cases) simp_all
next
  case (2 a)
  show ?case
  proof (cases ys rule: base64.cases)
    case (2 a')
    with "2.prems" group3 [of a a' 0 0 0 0] show ?thesis by simp
  qed (use "2.prems" in simp_all)
next
  case (3 a b)
  show ?case
  proof (cases ys rule: base64.cases)
    case (3 a' b')
    with "3.prems" group3 [of a a' b b' 0 0] show ?thesis by simp
  qed (use "3.prems" in simp_all)
next
  case (4 a b c rest)
  show ?case
  proof (cases ys rule: base64.cases)
    case (4 a' b' c' rest')
    with "4.prems" group3 [of a a' b b' c c'] "4.IH" [of rest'] show ?thesis by simp
  qed (use "4.prems" in simp_all)
qed


section \<open>Images within the budget\<close>

text \<open>
  Claim C6.  When the stored image has at most \<open>MAX_SIZE_BYTES\<close> (15 MB) bytes, the handler
  sends exactly one completion request, the payload of its image URL is the base64 text of
  the uploaded bytes themselves, which no other bytes encode to, and sharp is never called.
\<close>

theorem passthrough_under_budget:
  assumes "files st (path file) = Some imageBuffer" and "length imageBuffer \<le> MAX_SIZE_BYTES"
  shows "posts (new_effects st (snd (upload_image w (Some file) st))) =
           [image_request w (imageMimeType file False) (base64 imageBuffer)] \<and>
         image_urls (messages (image_request w (imageMimeType file False) (base64 imageBuffer))) =
           [''data:image/'' @ imageMimeType file False @ '';base64,'' @ base64 imageBuffer] \<and>
         (base64 other = base64 imageBuffer \<longrightarrow> other = imageBuffer) \<and>
         sharp_calls (new_effects st (snd (upload_image w (Some file) st))) = []"
  using assms
  by (simp add: upload_image_def image_try_def readFileSync_def image_send_present Let_def
      image_catch_def image_cleanup_effects new_effects_def image_request_def image_url_def
      base64_inj split: sum.splits)

theorem passthrough_under_budget_witness:
  "files sample_state (path sample_png) = Some [0x89, 0x50, 0x4E, 0x47] \<and>
   length [0x89, 0x50, 0x4E, 0x47 :: 8 word] \<le> MAX_SIZE_BYTES \<and>
   posts (new_effects sample_state (snd (upload_image sample_world (Some sample_png) sample_state))) =
     [image_request sample_world ''image/png'' ''iVBORw==''] \<and>
   sharp_calls (new_effects sample_state
      (snd (upload_image sample_world (Some sample_png) sample_state))) = []"
proof -
  have f: "files sample_state (path sample_png) = Some [0x89, 0x50, 0x4E, 0x47]"
    by (simp add: sample_state_def sample_png_def)
  have l: "length [0x89, 0x50, 0x4E, 0x47 :: 8 word] \<le> MAX_SIZE_BYTES"
    by (simp add: MAX_SIZE_BYTES_def MAX_SIZE_MB_def)
  from passthrough_under_budget [OF f l, of sample_world "[0x89, 0x50, 0x4E, 0x47]"] f l
  show ?thesis
    by (simp add: imageMimeType_def sample_png_def b64_def base64_alphabet_def)
qed


section \<open>The image URL\<close>

text \<open>
  Claim C10.  Every completion request of the image route carries one image URL, and when
  the upload has a (non-empty) mime type the URL is \<open>data:image/\<close>, then that whole mime
  type, then \<open>;base64,\<close> and a base64 payload.  For a PNG upload, whose mime type is
  \<open>image/png\<close>, the URL therefore begins \<open>data:image/image/png;base64,\<close>.
\<close>

theorem image_url_prefix_duplicated:
  assumes "mimetype file \<noteq> []"
    and "r \<in> set (posts (new_effects st (snd (upload_image w (Some file) st))))"
  shows "\<exists>buf. image_urls (messages r) =
           [''data:image/'' @ mimetype file @ '';base64,'' @ base64 buf]"
proof -
  from upload_image_posts [of w "file" st] obtain es where
    es: "effects (snd (upload_image w (Some file) st)) = effects st @ es"
    "posts es = [] \<or> (\<exists>resized buf. posts es = [image_request w (imageMimeType file resized) (base64 buf)])"
    by blast
  from es(1) have "new_effects st (snd (upload_image w (Some file) st)) = es"
    by (rule new_effects_append)
  with assms(2) es(2) obtain resized buf where
    "r = image_request w (imageMimeType file resized) (base64 buf)" by auto
  with assms(1) show ?thesis
    by (auto simp add: image_request_def image_url_def imageMimeType_def)
qed

theorem image_url_prefix_duplicated_witness:
  "mimetype sample_png \<noteq> [] \<and>
   posts (new_effects sample_state (snd (upload_image sample_world (Some sample_png) sample_state))) =
     [image_request sample_world ''image/png'' ''iVBORw==''] \<and>
   (\<exists>buf. image_urls (messages (image_request sample_world ''image/png'' ''iVBORw=='')) =
      [''data:image/'' @ ''image/png'' @ '';base64,'' @ base64 buf]) \<and>
   image_urls (messages (image_request sample_world ''image/png'' ''iVBORw=='')) =
      [''data:image/image/png;base64,iVBORw=='']"
proof -
  have p: "posts (new_effects sample_state (snd (upload_image sample_world (Some sample_png) sample_state))) =
     [image_request sample_world ''image/png'' ''iVBORw=='']"
    by (simp add: upload_image_def image_try_def readFileSync_def sample_state_def sample_png_def
      MAX_SIZE_BYTES_def MAX_SIZE_MB_def image_send_def Let_def sample_world_def unlinkSync_def
      tempResizedPath_def image_respond_def sample_parse_def sample_completion_def new_effects_def
      imageMimeType_def b64_def base64_alphabet_def)
  have m: "mimetype sample_png \<noteq> []" by (simp add: sample_png_def)
  from image_url_prefix_duplicated [OF m, of "image_request sample_world ''image/png'' ''iVBORw==''" sample_state sample_world]
  have "\<exists>buf. image_urls (messages (image_request sample_world ''image/png'' ''iVBORw=='')) =
      [''data:image/'' @ mimetype sample_png @ '';base64,'' @ base64 buf]"
    using p by simp
  then show ?thesis using p m by (simp add: sample_png_def image_request_def image_url_def)
qed



section \<open>Deletion of the stored file\<close>

text \<open>
  Claim C1 says that the stored file is gone whenever a handler has answered.  Two runs in
  which it is not.  A PDF upload whose completion call fails is answered 500 while the file
  stays on disk and \<open>fs.unlinkSync\<close> is never called: the cleanup of lines 150-156 reads
  \<open>filePath\<close>, which is bound only inside the \<open>try\<close> block.  An image above 15 MB whose
  dimensions cannot be read is answered 400 from lines 211-218, which return without any
  cleanup.
\<close>

theorem failed_upload_stays_on_disk: 
  "status (fst (upload_pdf failing_world (Some sample_pdf) sample_state)) = 500 \<and>
   files (snd (upload_pdf failing_world (Some sample_pdf) sample_state)) (path sample_pdf)
     = Some [0x25, 0x50, 0x44, 0x46] \<and>
   unlinks (effects (snd (upload_pdf failing_world (Some sample_pdf) sample_state))) = [] \<and>
   status (fst (upload_image unreadable_world (Some sample_png) big_state)) = 400 \<and>
   files (snd (upload_image unreadable_world (Some sample_png) big_state)) (path sample_png)
     = Some big_image \<and>
   unlinks (effects (snd (upload_image unreadable_world (Some sample_png) big_state))) = []"
  by (simp add: eval_defs big_state_def unreadable_world_def length_big_image resize_image_def)



section \<open>Failure of the completion call\<close>

text \<open>
  Claim C4, amended.  When the completion call fails, the PDF route answers 500 with
  \<open>success: false\<close>, the error \<open>OpenAI API failed\<close> and as \<open>details\<close> the body of the
  upstream response when there is one and it is truthy (not \<open>null\<close>, \<open>false\<close>, \<open>0\<close> or the
  empty string), else the message of the error.  The image route answers the same, but its
  error is \<open>Image processing failed\<close>.
\<close>

theorem upstream_failure_response:
  "(files st (path file) = Some b \<longrightarrow> pdfParse w b = Inr text \<longrightarrow>
      axios_post w (pdf_request w text) = Inl e \<longrightarrow>
      fst (upload_pdf w (Some file) st) =
        \<lparr>status = 500,
         json = empty_body\<lparr>success := Some False, error := Some ''OpenAI API failed'',
           details := Some (case err_response_data e of None \<Rightarrow> JString (err_message e)
                            | Some body \<Rightarrow> if truthy body then body else JString (err_message e))\<rparr>\<rparr>)
   \<and>
   (files st (path file) = Some b \<longrightarrow>
      (if MAX_SIZE_BYTES < length b
       then resized \<and> sizeOf w b = Inr d \<and> sharp w (resize_request b d) = Inr processed
       else \<not> resized \<and> processed = b) \<longrightarrow>
      axios_post w (image_request w (imageMimeType file resized) (base64 processed)) = Inl e \<longrightarrow>
      fst (upload_image w (Some file) st) =
        \<lparr>status = 500,
         json = empty_body\<lparr>success := Some False, error := Some ''Image processing failed'',
           details := Some (case err_response_data e of None \<Rightarrow> JString (err_message e)
                            | Some body \<Rightarrow> if truthy body then body else JString (err_message e))\<rparr>\<rparr>)"
proof (intro conjI impI)
  assume "files st (path file) = Some b" "pdfParse w b = Inr text"
    "axios_post w (pdf_request w text) = Inl e"
  then show "fst (upload_pdf w (Some file) st) =
        \<lparr>status = 500,
         json = empty_body\<lparr>success := Some False, error := Some ''OpenAI API failed'',
           details := Some (case err_response_data e of None \<Rightarrow> JString (err_message e)
                            | Some body \<Rightarrow> if truthy body then body else JString (err_message e))\<rparr>\<rparr>"
    by (simp add: upload_pdf_def pdf_try_present Let_def pdf_catch_def error_details_def)
next
  assume a: "files st (path file) = Some b"
    "if MAX_SIZE_BYTES < length b
       then resized \<and> sizeOf w b = Inr d \<and> sharp w (resize_request b d) = Inr processed
       else \<not> resized \<and> processed = b"
    "axios_post w (image_request w (imageMimeType file resized) (base64 processed)) = Inl e"
  from image_try_normalised [OF a(1,2)] obtain st1 where
    "image_try w file st = image_send w file processed resized st1" "files st1 = files st" by blast
  with a show "fst (upload_image w (Some file) st) =
        \<lparr>status = 500,
         json = empty_body\<lparr>success := Some False, error := Some ''Image processing failed'',
           details := Some (case err_response_data e of None \<Rightarrow> JString (err_message e)
                            | Some body \<Rightarrow> if truthy body then body else JString (err_message e))\<rparr>\<rparr>"
    by (simp add: upload_image_def image_send_present Let_def image_catch_def error_details_def)
qed


text \<open>The amended claim on the two sample uploads, with a completion service that answers
  401 because the credential is missing, and with one whose error body is \<open>null\<close>.\<close>

theorem upstream_failure_response_witness:
  \<open>fst (upload_pdf failing_world (Some sample_pdf) sample_state) =
     \<lparr>status = 500,
      json = empty_body\<lparr>success := Some False, error := Some ''OpenAI API failed'',
        details := Some (JObject ''{"error":{"message":"Incorrect API key provided"}}'')\<rparr>\<rparr> \<and>
   fst (upload_image failing_world (Some sample_png) sample_state) =
     \<lparr>status = 500,
      json = empty_body\<lparr>success := Some False, error := Some ''Image processing failed'',
        details := Some (JObject ''{"error":{"message":"Incorrect API key provided"}}'')\<rparr>\<rparr> \<and>
   fst (upload_pdf null_body_world (Some sample_pdf) sample_state) =
     \<lparr>status = 500,
      json = empty_body\<lparr>success := Some False, error := Some ''OpenAI API failed'',
        details := Some (JString ''Request failed with status code 502'')\<rparr>\<rparr>\<close>
proof -
  note t = upstream_failure_response [of sample_state _ _ failing_world _ upstream_error False _ _]
  have 1: "fst (upload_pdf failing_world (Some sample_pdf) sample_state) =
     \<lparr>status = 500,
      json = empty_body\<lparr>success := Some False, error := Some ''OpenAI API failed'',
        details := Some (case err_response_data upstream_error of
                           None \<Rightarrow> JString (err_message upstream_error)
                         | Some body \<Rightarrow> if truthy body then body
                             else JString (err_message upstream_error))\<rparr>\<rparr>"
    using t [of sample_pdf "[0x25, 0x50, 0x44, 0x46]" "''Milk $3.99, Tax $0.50, Total $4.49''", THEN conjunct1]
    by (simp add: sample_state_def sample_pdf_def failing_world_def sample_world_def)
  have 2: "fst (upload_image failing_world (Some sample_png) sample_state) =
     \<lparr>status = 500,
      json = empty_body\<lparr>success := Some False, error := Some ''Image processing failed'',
        details := Some (case err_response_data upstream_error of
                           None \<Rightarrow> JString (err_message upstream_error)
                         | Some body \<Rightarrow> if truthy body then body
                             else JString (err_message upstream_error))\<rparr>\<rparr>"
    using t [of sample_png "[0x89, 0x50, 0x4E, 0x47]" _ _ "[0x89, 0x50, 0x4E, 0x47]", THEN conjunct2]
    by (simp add: sample_state_def sample_png_def failing_world_def sample_world_def
        MAX_SIZE_BYTES_def MAX_SIZE_MB_def)
  have 3: "fst (upload_pdf null_body_world (Some sample_pdf) sample_state) =
     \<lparr>status = 500,
      json = empty_body\<lparr>success := Some False, error := Some ''OpenAI API failed'',
        details := Some (JString ''Request failed with status code 502'')\<rparr>\<rparr>"
    using upstream_failure_response [of sample_state sample_pdf "[0x25, 0x50, 0x44, 0x46]"
        null_body_world "''Milk $3.99, Tax $0.50, Total $4.49''"
        "\<lparr>err_response_data = Some JNull, err_message = ''Request failed with status code 502''\<rparr>",
        THEN conjunct1]
    by (simp add: sample_state_def sample_pdf_def null_body_world_def sample_world_def)
  from 1 2 3 show ?thesis by (simp add: upstream_error_def)
qed


text \<open>Claim C4 as stated fails on the image route: the error is not
  \<open>OpenAI API failed\<close>.\<close>

theorem upstream_failure_counterexample:
  "error (json (fst (upload_image failing_world (Some sample_png) sample_state)))
     \<noteq> Some ''OpenAI API failed''"
  by (simp add: eval_defs)



section \<open>Completions that are not JSON\<close>

text \<open>
  Claim C2, amended.  When the completion call succeeds and its content is not valid JSON,
  the image route answers 500 with \<open>success: false\<close>, the error \<open>Parsing failed\<close> (with a
  capital P), the parser's message as \<open>details\<close> and the unparsed content as
  \<open>rawContent\<close>.  The PDF route answers 500 with \<open>success: false\<close> and without
  \<open>rawContent\<close>.
\<close>

theorem parse_failure_response:
  "(files st (path file) = Some b \<longrightarrow>
      (if MAX_SIZE_BYTES < length b
       then resized \<and> sizeOf w b = Inr d \<and> sharp w (resize_request b d) = Inr processed
       else \<not> resized \<and> processed = b) \<longrightarrow>
      axios_post w (image_request w (imageMimeType file resized) (base64 processed)) = Inr c \<longrightarrow>
      content c = Some raw \<longrightarrow> JSON_parse w raw = Inl m \<longrightarrow>
      fst (upload_image w (Some file) st) =
        \<lparr>status = 500,
         json = empty_body\<lparr>success := Some False, error := Some ''Parsing failed'',
           details := Some (JString m), rawContent := Some raw\<rparr>\<rparr>)
   \<and>
   (files st (path file) = Some b \<longrightarrow> pdfParse w b = Inr text \<longrightarrow>
      axios_post w (pdf_request w text) = Inr c \<longrightarrow>
      content c = Some raw \<longrightarrow> JSON_parse w raw = Inl m \<longrightarrow>
      status (fst (upload_pdf w (Some file) st)) = 500 \<and>
      success (json (fst (upload_pdf w (Some file) st))) = Some False \<and>
      rawContent (json (fst (upload_pdf w (Some file) st))) = None)"
proof (intro conjI impI)
  assume a: "files st (path file) = Some b"
    "if MAX_SIZE_BYTES < length b
       then resized \<and> sizeOf w b = Inr d \<and> sharp w (resize_request b d) = Inr processed
       else \<not> resized \<and> processed = b"
    "axios_post w (image_request w (imageMimeType file resized) (base64 processed)) = Inr c"
    "content c = Some raw" "JSON_parse w raw = Inl m"
  from image_try_normalised [OF a(1,2)] obtain st1 where
    "image_try w file st = image_send w file processed resized st1" "files st1 = files st" by blast
  with a show "fst (upload_image w (Some file) st) =
        \<lparr>status = 500,
         json = empty_body\<lparr>success := Some False, error := Some ''Parsing failed'',
           details := Some (JString m), rawContent := Some raw\<rparr>\<rparr>"
    by (simp add: upload_image_def image_send_present Let_def image_respond_def)
next
  assume a: "files st (path file) = Some b" "pdfParse w b = Inr text"
    "axios_post w (pdf_request w text) = Inr c" "content c = Some raw" "JSON_parse w raw = Inl m"
  then have r: "fst (upload_pdf w (Some file) st) =
      fst (pdf_catch (ReferenceError ''error'')
        (emit (FsUnlink (path file))
          ((record_usage c (emit (AxiosPost (pdf_request w text)) st))
             \<lparr>files := (files st)(path file := None)\<rparr>)))"
    by (simp add: upload_pdf_def pdf_try_present Let_def pdf_respond_def)
  show "status (fst (upload_pdf w (Some file) st)) = 500"
    by (simp add: r pdf_catch_def)
  show "success (json (fst (upload_pdf w (Some file) st))) = Some False"
    by (simp add: r pdf_catch_def empty_body_def)
  show "rawContent (json (fst (upload_pdf w (Some file) st))) = None"
    by (simp add: r pdf_catch_def empty_body_def)
qed

text \<open>The amended claim on the two sample uploads, with a completion whose content is
  \<open>not json\<close>.\<close>

theorem parse_failure_response_witness:
  "fst (upload_image not_json_world (Some sample_png) sample_state) =
     \<lparr>status = 500,
      json = empty_body\<lparr>success := Some False, error := Some ''Parsing failed'',
        details := Some (JString ''Unexpected token in JSON: not json''),
        rawContent := Some ''not json''\<rparr>\<rparr> \<and>
   status (fst (upload_pdf not_json_world (Some sample_pdf) sample_state)) = 500 \<and>
   success (json (fst (upload_pdf not_json_world (Some sample_pdf) sample_state))) = Some False \<and>
   rawContent (json (fst (upload_pdf not_json_world (Some sample_pdf) sample_state))) = None"
proof -
  note t = parse_failure_response [of sample_state _ _ False not_json_world _ _
      "\<lparr>total_tokens = Some 57, content = Some ''not json''\<rparr>" "''not json''"
      "''Unexpected token in JSON: not json''"]
  have 1: "fst (upload_image not_json_world (Some sample_png) sample_state) =
     \<lparr>status = 500,
      json = empty_body\<lparr>success := Some False, error := Some ''Parsing failed'',
        details := Some (JString ''Unexpected token in JSON: not json''),
        rawContent := Some ''not json''\<rparr>\<rparr>"
    using t [of sample_png "[0x89, 0x50, 0x4E, 0x47]" _ "[0x89, 0x50, 0x4E, 0x47]", THEN conjunct1]
    by (simp add: sample_state_def sample_png_def not_json_world_def sample_world_def
        MAX_SIZE_BYTES_def MAX_SIZE_MB_def sample_parse_def)
  have 2: "status (fst (upload_pdf not_json_world (Some sample_pdf) sample_state)) = 500 \<and>
      success (json (fst (upload_pdf not_json_world (Some sample_pdf) sample_state))) = Some False \<and>
      rawContent (json (fst (upload_pdf not_json_world (Some sample_pdf) sample_state))) = None"
    using t [of sample_pdf "[0x25, 0x50, 0x44, 0x46]" _ _ "''Milk $3.99, Tax $0.50, Total $4.49''",
        THEN conjunct2]
    by (simp add: sample_state_def sample_pdf_def not_json_world_def sample_world_def
        sample_parse_def)
  from 1 2 show ?thesis by simp
qed

text \<open>Claim C2 as stated fails on the image route, whose error is not the lower-case
  \<open>parsing failed\<close>.  On the PDF route the response object of lines 138-142 is never
  built (it reads the unbound \<open>error\<close>), and the outer handler answers
  \<open>OpenAI API failed\<close>.\<close>

theorem parse_failure_counterexample:
  "error (json (fst (upload_image not_json_world (Some sample_png) sample_state)))
     \<noteq> Some ''parsing failed'' \<and>
   error (json (fst (upload_pdf not_json_world (Some sample_pdf) sample_state)))
     = Some ''OpenAI API failed''"
  by (simp add: eval_defs ReferenceError_def plain_error_def)


section \<open>The middleware chain\<close>

lemma unlinkSync_hits [simp]: "hits (snd (unlinkSync p st)) = hits st"
  by (simp add: unlinkSync_def split: option.splits)

lemma pdf_try_hits [simp]: "hits (snd (pdf_try w file st)) = hits st"
proof (cases "files st (path file)")
  case None
  then show ?thesis by (simp add: pdf_try_def readFileSync_def)
next
  case (Some b)
  then show ?thesis by (simp add: pdf_try_present Let_def split: sum.splits)
qed

lemma upload_pdf_hits [simp]: "hits (snd (upload_pdf w rf st)) = hits st"
proof (cases rf)
  case None
  then show ?thesis by (simp add: upload_pdf_def)
next
  case (Some fi)
  obtain x st' where t: "pdf_try w fi st = (x, st')" by (cases "pdf_try w fi st")
  then have "hits st' = hits st" using pdf_try_hits [of w fi st] by simp
  with Some t show ?thesis by (cases x) (simp_all add: upload_pdf_def pdf_catch_def)
qed

lemma pdf_respond_status: "pdf_respond w c = Inr r \<Longrightarrow> status r = 200"
  by (auto simp add: pdf_respond_def ok_response_def split: option.splits sum.splits)

lemma image_respond_status: "image_respond w c = Inr r \<Longrightarrow> status r = 200 \<or> status r = 500"
  by (auto simp add: image_respond_def ok_response_def split: option.splits sum.splits)

lemma pdf_try_status: "pdf_try w file st = (Inr r, st') \<Longrightarrow> status r = 200"
proof (cases "files st (path file)")
  case None
  assume "pdf_try w file st = (Inr r, st')"
  with None show ?thesis by (simp add: pdf_try_def readFileSync_def)
next
  case (Some b)
  assume "pdf_try w file st = (Inr r, st')"
  with Some show ?thesis
    by (auto simp add: pdf_try_present Let_def split: sum.splits dest: pdf_respond_status)
qed

lemma upload_pdf_status: "status (fst (upload_pdf w rf st)) \<in> {200, 400, 500}"
proof (cases rf)
  case None
  then show ?thesis by (simp add: upload_pdf_def)
next
  case (Some fi)
  obtain x st' where t: "pdf_try w fi st = (x, st')" by (cases "pdf_try w fi st")
  with Some show ?thesis
    by (cases x) (auto simp add: upload_pdf_def pdf_catch_def dest: pdf_try_status)
qed

lemma image_send_hits [simp]:
  "files st (path file) = Some b \<Longrightarrow> hits (snd (image_send w file p rz st)) = hits st"
  by (simp add: image_send_present Let_def split: sum.splits)

lemma image_send_status:
  "files st (path file) = Some b \<Longrightarrow> image_send w file p rz st = (Inr r, st') \<Longrightarrow>
     status r = 200 \<or> status r = 500"
  by (auto simp add: image_send_present Let_def split: sum.splits dest: image_respond_status)

lemma resize_image_hits [simp]: "hits (snd (resize_image w b st)) = hits st"
  by (simp add: resize_image_def Let_def split: sum.splits)

lemma resize_image_files [simp]: "files (snd (resize_image w b st)) = files st"
  by (simp add: resize_image_def Let_def split: sum.splits)

lemma image_try_hits [simp]: "hits (snd (image_try w file st)) = hits st"
proof (cases "files st (path file)")
  case None
  then show ?thesis by (simp add: image_try_def readFileSync_def)
next
  case (Some b)
  obtain y st1 where rz: "resize_image w b st = (y, st1)" by (cases "resize_image w b st")
  then have "files st1 = files st" "hits st1 = hits st"
    using resize_image_files [of w b st] resize_image_hits [of w b st] by simp_all
  with Some rz show ?thesis
    by (cases y) (simp_all add: image_try_def readFileSync_def)
qed

lemma image_try_status:
  assumes "image_try w file st = (Inr r, st')"
  shows "status r \<in> {200, 400, 500}"
proof (cases "files st (path file)")
  case None
  with assms show ?thesis by (simp add: image_try_def readFileSync_def)
next
  case (Some b)
  obtain y st1 where rz: "resize_image w b st = (y, st1)" by (cases "resize_image w b st")
  then have f: "files st1 (path file) = Some b"
    using resize_image_files [of w b st] Some by simp
  show ?thesis
  proof (cases "MAX_SIZE_BYTES < length b")
    case False
    with assms Some image_send_status [OF Some, of w b False r st'] show ?thesis
      by (auto simp add: image_try_def readFileSync_def)
  next
    case True
    with assms Some rz f show ?thesis
      by (cases y) (auto simp add: image_try_def readFileSync_def dest: image_send_status)
  qed
qed

lemma image_cleanup_hits [simp]: "hits (image_cleanup file st) = hits st"
  by (cases "files st (path file)")
    (simp_all add: image_cleanup_def unlink_temp_def tempResizedPath_def unlinkSync_present
      unlinkSync_absent)

lemma upload_image_hits [simp]: "hits (snd (upload_image w rf st)) = hits st"
proof (cases rf)
  case None
  then show ?thesis by (simp add: upload_image_def)
next
  case (Some fi)
  obtain x st' where t: "image_try w fi st = (x, st')" by (cases "image_try w fi st")
  then have "hits st' = hits st" using image_try_hits [of w fi st] by simp
  with Some t show ?thesis by (cases x) (simp_all add: upload_image_def image_catch_def)
qed

lemma upload_image_status: "status (fst (upload_image w rf st)) \<in> {200, 400, 500}"
proof (cases rf)
  case None
  then show ?thesis by (simp add: upload_image_def)
next
  case (Some fi)
  obtain x st' where t: "image_try w fi st = (x, st')" by (cases "image_try w fi st")
  with Some show ?thesis
    by (cases x) (auto simp add: upload_image_def image_catch_def dest: image_try_status)
qed

lemma track_request_simps [simp]:
  "hits (track_request st) = hits st" "files (track_request st) = files st"
  "effects (track_request st) = effects st" "totalTokensUsed (track_request st) = totalTokensUsed st"
  "estimatedCost (track_request st) = estimatedCost st"
  by (simp_all add: track_request_def)

lemma upload_route_hits [simp]: "hits (snd (upload_route w r st)) = hits st"
  by (simp add: upload_route_def upload_single_def error_middleware_def
      split: option.splits route.splits)

lemma upload_route_status: "status (fst (upload_route w r st)) \<in> {200, 400, 500}"
  using upload_pdf_status [of w] upload_image_status [of w]
  by (simp add: upload_route_def upload_single_def error_middleware_def
      split: option.splits route.splits)

lemma apiLimiter_open:
  fixes st :: state
  assumes "hits st (ip r) = Some (n, reset)" "time r < reset"
  shows "apiLimiter r st =
     (if max_hits < Suc n then Some \<lparr>status = 429, json = limit_message\<rparr> else None,
      st\<lparr>hits := (hits st)(ip r \<mapsto> (Suc n, reset))\<rparr>)"
  using assms by (simp add: apiLimiter_def)

lemma apiLimiter_fresh:
  assumes "hits st (ip r) = None"
  shows "apiLimiter r st = (None, st\<lparr>hits := (hits st)(ip r \<mapsto> (Suc 0, time r + windowMs))\<rparr>)"
  using assms by (simp add: apiLimiter_def max_hits_def)

lemma apiLimiter_other: "c \<noteq> ip r \<Longrightarrow> hits (snd (apiLimiter r st)) c = hits st c"
  by (simp add: apiLimiter_def Let_def split: option.splits prod.splits)

lemma app_post_hits: "hits (snd (app_post w r st)) = hits (snd (apiLimiter r st :: 'j response option \<times> state))"
  for w :: "'j world"
  by (cases "apiLimiter r st :: 'j response option \<times> state")
     (auto simp add: app_post_def split: option.splits)

lemma app_post_status:
  "status (fst (app_post w r st)) = 429 \<longleftrightarrow> fst (apiLimiter r st :: 'j response option \<times> state) \<noteq> None"
  for w :: "'j world"
proof (cases "apiLimiter r st :: 'j response option \<times> state")
  case (Pair a st1)
  show ?thesis
  proof (cases a)
    case None
    with Pair upload_route_status [of w r "track_request st1"] show ?thesis
      by (auto simp add: app_post_def)
  next
    case (Some l)
    with Pair show ?thesis
      by (auto simp add: app_post_def apiLimiter_def Let_def split: if_splits prod.splits option.splits)
  qed
qed

lemma apiLimiter_closed:
  assumes "no_open_window st (ip r) t0" "t0 \<le> time r"
  shows "apiLimiter r st = (None, st\<lparr>hits := (hits st)(ip r \<mapsto> (Suc 0, time r + windowMs))\<rparr>)"
  using assms
  by (auto simp add: apiLimiter_def no_open_window_def max_hits_def split: option.splits)

lemma limiter_decision:
  fixes w :: "'j world"
  assumes "(no_open_window st (ip r) t0 \<and> n = 0) \<or>
           (\<exists>reset. hits st (ip r) = Some (n, reset) \<and> t0 + windowMs \<le> reset)"
    and "t0 \<le> time r" "time r < t0 + windowMs"
  shows "status (fst (app_post w r st)) = 429 \<longleftrightarrow> max_hits < Suc n"
    and "max_hits < Suc n \<Longrightarrow> json (fst (app_post w r st)) = limit_message"
    and "\<exists>reset. hits (snd (app_post w r st)) (ip r) = Some (Suc n, reset) \<and> t0 + windowMs \<le> reset"
proof -
  have time: "\<And>reset. t0 + windowMs \<le> reset \<Longrightarrow> time r < reset"
    using assms(3) by simp
  have closed: "apiLimiter r st =
      (None :: 'j response option, st\<lparr>hits := (hits st)(ip r \<mapsto> (Suc 0, time r + windowMs))\<rparr>)"
    if "no_open_window st (ip r) t0"
    using that assms(2) by (rule apiLimiter_closed)
  have lim: "fst (apiLimiter r st :: 'j response option \<times> state) \<noteq> None \<longleftrightarrow> max_hits < Suc n"
    using assms(1) time
    by (auto simp add: closed apiLimiter_open max_hits_def split: if_splits)
  show "status (fst (app_post w r st)) = 429 \<longleftrightarrow> max_hits < Suc n"
    using lim by (simp add: app_post_status)
  show "json (fst (app_post w r st)) = limit_message" if "max_hits < Suc n"
    using assms(1) time that by (auto simp add: app_post_def closed apiLimiter_open max_hits_def)
  show "\<exists>reset. hits (snd (app_post w r st)) (ip r) = Some (Suc n, reset) \<and> t0 + windowMs \<le> reset"
    using assms time by (auto simp add: app_post_hits closed apiLimiter_open)
qed

lemma limiter_other:
  fixes w :: "'j world"
  assumes "ip r \<noteq> c"
  shows "hits (snd (app_post w r st)) c = hits st c"
  using assms by (simp add: app_post_hits apiLimiter_other)

lemma serve_length: "length (fst (serve w rs st)) = length rs"
proof (induction rs arbitrary: st)
  case Nil
  then show ?case by simp
next
  case (Cons r rs)
  obtain resp st1 where a: "app_post w r st = (resp, st1)" by (cases "app_post w r st")
  obtain resps st2 where s: "serve w rs st1 = (resps, st2)" by (cases "serve w rs st1")
  from Cons [of st1] a s show ?case by simp
qed

lemma serve_limited:
  fixes w :: "'j world"
  assumes "(no_open_window st c t0 \<and> n = 0) \<or>
           (\<exists>reset. hits st c = Some (n, reset) \<and> t0 + windowMs \<le> reset)"
    and "\<forall>r\<in>set rs. ip r = c \<longrightarrow> t0 \<le> time r \<and> time r < t0 + windowMs"
    and "i < length rs" "ip (rs ! i) = c"
  shows "(status (fst (serve w rs st) ! i) = 429 \<longleftrightarrow>
            max_hits < n + length (filter (\<lambda>r. ip r = c) (take (Suc i) rs))) \<and>
         (max_hits < n + length (filter (\<lambda>r. ip r = c) (take (Suc i) rs)) \<longrightarrow>
            json (fst (serve w rs st) ! i) = limit_message)"
  using assms
proof (induction rs arbitrary: st n i)
  case Nil
  then show ?case by simp
next
  case (Cons r rs)
  obtain resp st1 where a: "app_post w r st = (resp, st1)" by (cases "app_post w r st")
  obtain resps st2 where s: "serve w rs st1 = (resps, st2)" by (cases "serve w rs st1")
  show ?case
  proof (cases i)
    case 0
    with Cons.prems have c: "ip r = c" by simp
    with Cons.prems have t: "t0 \<le> time r" "time r < t0 + windowMs" by simp_all
    from Cons.prems(1) c have
      i: "(no_open_window st (ip r) t0 \<and> n = 0) \<or>
           (\<exists>reset. hits st (ip r) = Some (n, reset) \<and> t0 + windowMs \<le> reset)" by simp
    from limiter_decision(1,2) [OF i t, of w] a s 0 c show ?thesis by simp
  next
    case (Suc j)
    let ?n = "n + (if ip r = c then 1 else 0)"
    have inv: "(no_open_window st1 c t0 \<and> ?n = 0) \<or>
           (\<exists>reset. hits st1 c = Some (?n, reset) \<and> t0 + windowMs \<le> reset)"
    proof (cases "ip r = c")
      case True
      with Cons.prems have t: "t0 \<le> time r" "time r < t0 + windowMs" by simp_all
      from Cons.prems(1) True have
        i: "(no_open_window st (ip r) t0 \<and> n = 0) \<or>
           (\<exists>reset. hits st (ip r) = Some (n, reset) \<and> t0 + windowMs \<le> reset)" by simp
      from limiter_decision(3) [OF i t, of w] a True show ?thesis by simp
    next
      case False
      with limiter_other [of r c w st] a Cons.prems(1) show ?thesis
        by (simp add: no_open_window_def)
    qed
    from Cons.prems Suc have p: "\<forall>r\<in>set rs. ip r = c \<longrightarrow> t0 \<le> time r \<and> time r < t0 + windowMs"
      "j < length rs" "ip (rs ! j) = c" by simp_all
    from Cons.IH [OF inv p, of ] a s Suc show ?thesis by (simp add: add.assoc)
  qed
qed


section \<open>Oversized uploads\<close>

text \<open>
  Claim C7, amended.  An upload of more than \<open>fileSize\<close> (20 MB) bytes under the expected
  field, when the limiter lets the request through, is rejected before the route handler
  runs: nothing is stored or deleted, no library or service is called, the token counter
  keeps its value, and the answer is that of the error handler of lines 355-372: status
  500 with \<open>success: false\<close>, error \<open>Server error\<close> and the message of multer's error.
\<close>

theorem oversized_upload_rejected:
  fixes w :: "'j world"
  assumes "file_part req = Some (field_name (route req), mime, data)"
    and "fileSize < length data"
    and "fst (apiLimiter req st :: 'j response option \<times> state) = None"
  shows "fst (app_post w req st) =
           \<lparr>status = 500,
            json = empty_body\<lparr>success := Some False, error := Some ''Server error'',
                     message := Some ''File too large''\<rparr>\<rparr> \<and>
         files (snd (app_post w req st)) = files st \<and>
         new_effects st (snd (app_post w req st)) = [] \<and>
         totalTokensUsed (snd (app_post w req st)) = totalTokensUsed st"
proof -
  obtain st1 where l: "(apiLimiter req st :: 'j response option \<times> state) = (None, st1)"
    using assms(3) by (cases "apiLimiter req st :: 'j response option \<times> state") simp
  then have st1: "files st1 = files st" "effects st1 = effects st"
    "totalTokensUsed st1 = totalTokensUsed st"
    by (auto simp add: apiLimiter_def Let_def split: prod.splits if_splits option.splits)
  have "upload_route w req (track_request st1) =
      (\<lparr>status = 500,
            json = empty_body\<lparr>success := Some False, error := Some ''Server error'',
                     message := Some ''File too large''\<rparr>\<rparr>, track_request st1)"
    using assms(1,2)
    by (simp add: upload_route_def upload_single_def error_middleware_def plain_error_def)
  with l st1 show ?thesis by (simp add: app_post_def new_effects_def)
qed


theorem oversized_upload_rejected_witness:
  "file_part oversized_request = Some (field_name (route oversized_request), ''image/jpeg'', replicate 20971521 0) \<and>
   fileSize < length (replicate 20971521 (0 :: 8 word)) \<and>
   fst (app_post sample_world oversized_request sample_state) =
           \<lparr>status = 500,
            json = empty_body\<lparr>success := Some False, error := Some ''Server error'',
                     message := Some ''File too large''\<rparr>\<rparr> \<and>
   files (snd (app_post sample_world oversized_request sample_state)) = files sample_state \<and>
   new_effects sample_state (snd (app_post sample_world oversized_request sample_state)) = []"
proof -
  have 1: "file_part oversized_request = Some (field_name (route oversized_request), ''image/jpeg'', replicate 20971521 0)"
    by (simp add: oversized_request_def field_name_def)
  have 2: "fileSize < length (replicate 20971521 (0 :: 8 word))"
    by (simp add: fileSize_def)
  have 3: "fst (apiLimiter oversized_request sample_state :: string response option \<times> state) = None"
    by (simp add: apiLimiter_def sample_state_def oversized_request_def max_hits_def)
  from oversized_upload_rejected [OF 1 2 3, of sample_world] 1 2 show ?thesis by simp
qed


text \<open>Claim C7 as stated fails: the status of the rejection is not in the range 400-499.\<close>

theorem oversized_upload_counterexample:
  "\<not> (400 \<le> status (fst (app_post sample_world oversized_request sample_state)) \<and>
      status (fst (app_post sample_world oversized_request sample_state)) < 500)"
  by (simp add: app_post_def apiLimiter_def sample_state_def oversized_request_def max_hits_def
      upload_route_def upload_single_def field_name_def fileSize_def error_middleware_def)



section \<open>The rate limiter\<close>

text \<open>
  Claim C8.  Take any sequence of requests, of any clients and of any content, and a client
  \<open>c\<close> that has no window open at time \<open>t0\<close> and whose requests all arrive in the 15
  minutes from \<open>t0\<close>.  A request of \<open>c\<close> is answered 429 exactly when it is the sixth or a
  later one of \<open>c\<close> in the sequence, and then with \<open>success: false\<close> and the configured
  message; the first five get the answer of their route, which is never 429.
\<close>

theorem sixth_request_limited:
  fixes w :: "'j world"
  assumes "no_open_window st c t0"
    and "\<forall>r\<in>set rs. ip r = c \<longrightarrow> t0 \<le> time r \<and> time r < t0 + windowMs"
    and "i < length rs" and "ip (rs ! i) = c"
  shows "(status (fst (serve w rs st) ! i) = 429 \<longleftrightarrow>
            6 \<le> length (filter (\<lambda>r. ip r = c) (take (Suc i) rs))) \<and>
         (6 \<le> length (filter (\<lambda>r. ip r = c) (take (Suc i) rs)) \<longrightarrow>
            json (fst (serve w rs st) ! i) =
              empty_body\<lparr>success := Some False,
                error := Some ''Too many requests from this IP, please try again after 15 minutes''\<rparr>)"
proof -
  have fresh: "(no_open_window st c t0 \<and> (0::nat) = 0) \<or>
           (\<exists>reset. hits st c = Some (0, reset) \<and> t0 + windowMs \<le> reset)"
    using assms(1) by simp
  have "5 < k \<longleftrightarrow> 6 \<le> k" for k :: nat by arith
  with serve_limited [OF fresh assms(2,3,4), of w] show ?thesis
    by (simp add: max_hits_def limit_message_def)
qed

theorem sixth_request_limited_witness:
  "no_open_window sample_state ''203.0.113.7'' 0 \<and>
   windowMs = 900000 \<and>
   status (fst (serve sample_world burst sample_state) ! 4) \<noteq> 429 \<and>
   status (fst (serve sample_world burst sample_state) ! 5) = 429 \<and>
   json (fst (serve sample_world burst sample_state) ! 5) =
     empty_body\<lparr>success := Some False,
       error := Some ''Too many requests from this IP, please try again after 15 minutes''\<rparr>"
proof -
  have h: "no_open_window sample_state ''203.0.113.7'' 0"
    by (simp add: no_open_window_def sample_state_def)
  have t: "\<forall>r\<in>set burst. ip r = ''203.0.113.7'' \<longrightarrow> 0 \<le> time r \<and> time r < 0 + windowMs"
    by (simp add: burst_def windowMs_def)
  have 4: "status (fst (serve sample_world burst sample_state) ! 4) \<noteq> 429"
    using sixth_request_limited [OF h t, of 4 sample_world] by (simp add: burst_def)
  have 5: "status (fst (serve sample_world burst sample_state) ! 5) = 429 \<and>
     json (fst (serve sample_world burst sample_state) ! 5) =
     empty_body\<lparr>success := Some False,
       error := Some ''Too many requests from this IP, please try again after 15 minutes''\<rparr>"
    using sixth_request_limited [OF h t, of 5 sample_world] by (simp add: burst_def)
  from h 4 5 show ?thesis by (simp add: windowMs_def)
qed


section \<open>Images above the budget\<close>










section \<open>Token accounting\<close>










lemma record_usage_emit [simp]:
  "totalTokensUsed (record_usage c (emit x st)) = totalTokensUsed (record_usage c st)"
  "estimatedCost (record_usage c (emit x st)) = estimatedCost (record_usage c st)"
  by (simp_all add: record_usage_def split: option.splits)

lemma image_cleanup_counters [simp]:
  "totalTokensUsed (image_cleanup file st) = totalTokensUsed st"
  "estimatedCost (image_cleanup file st) = estimatedCost st"
  by (cases "files st (path file)";
      simp add: image_cleanup_def unlink_temp_def tempResizedPath_def unlinkSync_present
        unlinkSync_absent)+

lemma counters_simps [simp]:
  "counters (emit x st) = counters st"
  "counters (st\<lparr>files := f\<rparr>) = counters st"
  "counters (st\<lparr>hits := h\<rparr>) = counters st"
  "counters (track_request st) = counters st"
  unfolding counters_def track_request_def by simp_all

lemma counters_record_usage:
  "counters st = counters st' \<Longrightarrow> counters (record_usage c st) = counters (record_usage c st')"
  by (auto simp add: counters_def record_usage_def split: option.splits)




lemma counters_unlinkSync [simp]: "counters (snd (unlinkSync p st)) = counters st"
  by (cases "files st p") (simp_all add: unlinkSync_present unlinkSync_absent)

lemma counters_image_cleanup [simp]: "counters (image_cleanup fi st) = counters st"
  unfolding counters_def by simp

lemma counters_record_usage_emit [simp]:
  "counters (record_usage c (emit x st)) = counters (record_usage c st)"
  unfolding counters_def by simp

lemma upload_pdf_completed:
  assumes "files st (path file) = Some b" "pdfParse w b = Inr extracted"
    and "axios_post w (pdf_request w extracted) = Inr c"
  shows "totalTokensUsed (snd (upload_pdf w (Some file) st)) = totalTokensUsed (record_usage c st)"
    and "estimatedCost (snd (upload_pdf w (Some file) st)) = estimatedCost (record_usage c st)"
  using assms
  by (cases "pdf_respond w c";
      simp add: upload_pdf_def pdf_try_present pdf_catch_def Let_def)+



lemma upload_image_completed:
  assumes "files st (path file) = Some b"
    and "if MAX_SIZE_BYTES < length b
         then resized \<and> sizeOf w b = Inr d \<and> sharp w (resize_request b d) = Inr processed
         else \<not> resized \<and> processed = b"
    and "axios_post w (image_request w (imageMimeType file resized) (base64 processed)) = Inr c"
  shows "totalTokensUsed (snd (upload_image w (Some file) st)) = totalTokensUsed (record_usage c st)"
    and "estimatedCost (snd (upload_image w (Some file) st)) = estimatedCost (record_usage c st)"
proof -
  have "\<exists>st1. image_try w file st = image_send w file processed resized st1 \<and>
      files st1 = files st \<and> counters st1 = counters st"
    using assms(1,2)
    by (auto simp add: image_try_def readFileSync_def resize_image_def Let_def split: if_splits)
  then obtain st1 where
    t: "image_try w file st = image_send w file processed resized st1" "files st1 = files st"
      "counters st1 = counters st" by blast
  have r: "counters (record_usage c st1) = counters (record_usage c st)"
    using t(3) by (rule counters_record_usage)
  have "counters (snd (upload_image w (Some file) st)) = counters (record_usage c st)"
    using assms(1,3) t r
    by (cases "image_respond w c")
      (simp_all add: upload_image_def image_send_present Let_def image_catch_def)
  then show "totalTokensUsed (snd (upload_image w (Some file) st)) = totalTokensUsed (record_usage c st)"
    and "estimatedCost (snd (upload_image w (Some file) st)) = estimatedCost (record_usage c st)"
    by (simp_all add: counters_def)
qed










end
